theory Spec2Isabelle
  imports Complex_Main "HOL-Library.Log_Nat"
begin

section \<open>Number model\<close>

text \<open>
  The TypeScript sources compute with JavaScript numbers, IEEE 754 binary64 values.
  Two models are used.
  \<^item> The services and the UI mapping are modelled over the reals: \<open>Math.max\<close>,
    \<open>Math.min\<close>, \<open>Math.exp\<close>, \<open>Math.log10\<close> are \<open>max\<close>, \<open>min\<close>, \<open>exp\<close>, \<open>log 10\<close>.
    This is the arithmetic the code asks for, without the rounding of each operation,
    without infinities and without NaN: it describes the code for finite settings in
    which no operation overflows, up to the rounding error of each operation.
  \<^item> Where the outcome depends on rounding itself, the guard of \<open>setDistanceRange\<close>,
    the operations are modelled as binary64 operations (next section).
\<close>

section \<open>Binary64 arithmetic\<close>

text \<open>
  A JavaScript number is a finite binary64 value, an infinity or NaN. \<open>Num x\<close> stands
  for the finite value \<open>x\<close>; the two zeros are not told apart.

  \<open>binary64 x\<close> is the number an operation returns when its exact result is \<open>x\<close>:
  \<open>x\<close> rounded to the nearest value \<open>m \<sqdot> 2\<^sup>q\<close> with \<open>\<bar>m\<bar> < 2\<^sup>5\<^sup>3\<close>, halves to the even \<open>m\<close>,
  where \<open>q\<close> is 52 below the binary exponent of \<open>x\<close> and at least -1074; a rounded
  magnitude of \<open>2\<^sup>1\<^sup>0\<^sup>2\<^sup>4\<close> or more is an infinity. \<open>exponent_of x\<close> is the binary exponent
  \<open>e\<close> with \<open>2\<^sup>e \<le> \<bar>x\<bar> < 2\<^sup>e\<^sup>+\<^sup>1\<close>.
\<close>

datatype number = Num real | Infinity | NegInfinity | NaN

definition round_half_even :: "real \<Rightarrow> int" where
  "round_half_even y =
     (let f = \<lfloor>y\<rfloor>; r = y - of_int f
      in if r < 1 / 2 then f else if 1 / 2 < r then f + 1 else if even f then f else f + 1)"

definition pow2 :: "int \<Rightarrow> real" where
  "pow2 q = (if 0 \<le> q then 2 ^ nat q else 1 / 2 ^ nat (- q))"

definition exponent_of :: "real \<Rightarrow> int" where
  "exponent_of x =
     (if 1 \<le> \<bar>x\<bar> then bitlen \<lfloor>\<bar>x\<bar>\<rfloor> - 1 else - bitlen (\<lceil>1 / \<bar>x\<bar>\<rceil> - 1))"

definition binary64 :: "real \<Rightarrow> number" where
  "binary64 x =
     (if x = 0 then Num 0
      else
        let q = max (exponent_of x - 52) (- 1074);
            r = of_int (round_half_even (x / pow2 q)) * pow2 q
        in if 2 ^ 1024 \<le> \<bar>r\<bar> then (if 0 < x then Infinity else NegInfinity) else Num r)"

text \<open>Negation, addition, subtraction, division and comparison of numbers.\<close>

fun num_neg :: "number \<Rightarrow> number" where
  "num_neg (Num x) = Num (- x)"
| "num_neg Infinity = NegInfinity"
| "num_neg NegInfinity = Infinity"
| "num_neg NaN = NaN"

fun num_add :: "number \<Rightarrow> number \<Rightarrow> number" where
  "num_add NaN b = NaN"
| "num_add a NaN = NaN"
| "num_add (Num x) (Num y) = binary64 (x + y)"
| "num_add (Num x) b = b"
| "num_add a (Num y) = a"
| "num_add Infinity Infinity = Infinity"
| "num_add NegInfinity NegInfinity = NegInfinity"
| "num_add Infinity NegInfinity = NaN"
| "num_add NegInfinity Infinity = NaN"

definition num_sub :: "number \<Rightarrow> number \<Rightarrow> number" where
  "num_sub a b = num_add a (num_neg b)"

fun num_div :: "number \<Rightarrow> number \<Rightarrow> number" where
  "num_div NaN b = NaN"
| "num_div a NaN = NaN"
| "num_div (Num x) (Num y) =
     (if y = 0 then (if x = 0 then NaN else if 0 < x then Infinity else NegInfinity)
      else binary64 (x / y))"
| "num_div (Num x) b = Num 0"
| "num_div Infinity (Num y) = (if 0 \<le> y then Infinity else NegInfinity)"
| "num_div NegInfinity (Num y) = (if 0 \<le> y then NegInfinity else Infinity)"
| "num_div a b = NaN"

fun num_le :: "number \<Rightarrow> number \<Rightarrow> bool" where
  "num_le NaN b = False"
| "num_le a NaN = False"
| "num_le NegInfinity b = True"
| "num_le a Infinity = True"
| "num_le (Num x) (Num y) = (x \<le> y)"
| "num_le a b = False"

text \<open>\<open>Math.max\<close> and \<open>Math.min\<close> of two numbers: NaN when either is NaN.\<close>

definition Math_max :: "number \<Rightarrow> number \<Rightarrow> number" where
  "Math_max a b = (if a = NaN \<or> b = NaN then NaN else if num_le a b then b else a)"

definition Math_min :: "number \<Rightarrow> number \<Rightarrow> number" where
  "Math_min a b = (if a = NaN \<or> b = NaN then NaN else if num_le a b then a else b)"

text \<open>
  \<open>setDistanceRange\<close> of \<open>EnhancedAudioSynthesisService\<close>. It overwrites both fields
  whatever they held, so it is given as the pair (\<open>minDistance\<close>, \<open>maxDistance\<close>) the
  service holds after the call. \<open>normalizedDistance_binary64\<close> is the first two lines of
  \<open>calculateVolumeFromDistance\<close> and of \<open>calculateDistanceEffects\<close> on such a pair.
\<close>

definition setDistanceRange :: "number \<Rightarrow> number \<Rightarrow> number \<times> number" where
  "setDistanceRange minD maxD =
     (let minDistance1 = Math_max (Num 0) minD;
          maxDistance1 = Math_max (num_add minDistance1 (Num 1)) maxD
      in (minDistance1, maxDistance1))"

definition normalizedDistance_binary64 :: "number \<Rightarrow> number \<Rightarrow> number \<Rightarrow> number" where
  "normalizedDistance_binary64 minD maxD distance =
     (let clampedDistance = Math_max minD (Math_min maxD distance)
      in num_div (num_sub clampedDistance minD) (num_sub maxD minD))"

section \<open>EnhancedAudioSynthesisService: data\<close>

datatype VolumeCurve = inverse_square | exponential | logarithmic | linear

record DistanceEffects =
  enabled :: bool
  pitchEffect :: bool
  filterEffect :: bool
  reverbEffect :: bool
  pitchRange :: real
  filterRange :: real
  reverbRange :: real

text \<open>\<open>Partial<DistanceEffects>\<close>: every field may be absent.\<close>

record PartialDistanceEffects =
  p_enabled :: "bool option"
  p_pitchEffect :: "bool option"
  p_filterEffect :: "bool option"
  p_reverbEffect :: "bool option"
  p_pitchRange :: "real option"
  p_filterRange :: "real option"
  p_reverbRange :: "real option"

datatype SourceType = oscillator_src | audio_src

record AudioSource =
  id_src :: string
  name_src :: string
  type_src :: SourceType
  frequency_src :: "real option"
  file_src :: "string option"
  category_src :: "string option"

text \<open>
  A Web Audio node held by a track is modelled by the one parameter the service
  writes to it; \<open>None\<close> is the field being \<open>undefined\<close>.
  \<^item> \<open>oscillator\<close>: the oscillator's frequency. The service computes it from
    \<open>audioSource.frequency!\<close>; when that is absent the product is NaN, written as the
    inner \<open>None\<close>.
  \<^item> \<open>audioSourceNode\<close>: the buffer source's playback rate.
  \<^item> \<open>gainNode\<close>: the gain. \<open>filterNode\<close>: the cutoff frequency.
    \<open>reverbNode\<close>: the delay time.
\<close>

record AudioTrack =
  deviceId :: string
  deviceName :: string
  audioSource :: AudioSource
  volume :: real
  nodeVolume :: real
  pitch :: real
  reverb :: real
  filter_usr :: real
  distancePitch :: real
  distanceFilter :: real
  distanceReverb :: real
  playing :: bool
  oscillator :: "real option option"
  audioSourceNode :: "real option"
  gainNode :: "real option"
  filterNode :: "real option"
  reverbNode :: "real option"

text \<open>
  The service object. \<open>audioContext\<close> is \<open>True\<close> when the field holds a context and
  \<open>False\<close> when it is \<open>null\<close>.
\<close>

record service =
  audioContext :: bool
  audioTracks :: "string \<rightharpoonup> AudioTrack"
  globalVolume :: real
  maxVolumeLimit :: real
  maxDistance :: real
  minDistance :: real
  volumeCurve :: VolumeCurve
  distanceEffects :: DistanceEffects

definition initial_service :: "bool \<Rightarrow> service" where
  "initial_service ctx =
     \<lparr> audioContext = ctx,
       audioTracks = Map.empty,
       globalVolume = 7 / 10,
       maxVolumeLimit = 8 / 10,
       maxDistance = 200,
       minDistance = 5,
       volumeCurve = inverse_square,
       distanceEffects =
         \<lparr> enabled = True, pitchEffect = True, filterEffect = True, reverbEffect = True,
           pitchRange = 3 / 10, filterRange = 7 / 10, reverbRange = 4 / 10 \<rparr> \<rparr>"

section \<open>EnhancedAudioSynthesisService: configuration setters\<close>

definition setVolumeCurve :: "service \<Rightarrow> VolumeCurve \<Rightarrow> service" where
  "setVolumeCurve s curve = s\<lparr>volumeCurve := curve\<rparr>"

definition setVolumeLimit :: "service \<Rightarrow> real \<Rightarrow> service" where
  "setVolumeLimit s limit = s\<lparr>maxVolumeLimit := max (1 / 10) (min 1 limit)\<rparr>"

definition or_else :: "'a option \<Rightarrow> 'a \<Rightarrow> 'a" where
  "or_else p d = (case p of None \<Rightarrow> d | Some v \<Rightarrow> v)"

definition setDistanceEffects :: "service \<Rightarrow> PartialDistanceEffects \<Rightarrow> service" where
  "setDistanceEffects s effects =
     s\<lparr>distanceEffects :=
        \<lparr> enabled = or_else (p_enabled effects) (enabled (distanceEffects s)),
          pitchEffect = or_else (p_pitchEffect effects) (pitchEffect (distanceEffects s)),
          filterEffect = or_else (p_filterEffect effects) (filterEffect (distanceEffects s)),
          reverbEffect = or_else (p_reverbEffect effects) (reverbEffect (distanceEffects s)),
          pitchRange = or_else (p_pitchRange effects) (pitchRange (distanceEffects s)),
          filterRange = or_else (p_filterRange effects) (filterRange (distanceEffects s)),
          reverbRange = or_else (p_reverbRange effects) (reverbRange (distanceEffects s)) \<rparr>\<rparr>"

section \<open>EnhancedAudioSynthesisService: the distance mappings\<close>

text \<open>The \<open>switch\<close> of \<open>calculateVolumeFromDistance\<close> on the curve.\<close>

definition volumeRatio :: "VolumeCurve \<Rightarrow> real \<Rightarrow> real" where
  "volumeRatio curve normalizedDistance =
     (case curve of
        inverse_square \<Rightarrow>
          (let effectiveDistance = normalizedDistance * (9 / 10) + 1 / 10;
               ratio = 1 / (effectiveDistance * effectiveDistance)
           in min 1 (ratio / 100))
      | exponential \<Rightarrow>
          (let decayConstant = 4 in exp (- decayConstant * normalizedDistance))
      | logarithmic \<Rightarrow> max 0 (1 - log 10 (normalizedDistance * 9 + 1))
      | linear \<Rightarrow> 1 - normalizedDistance)"

text \<open>
  The first two lines shared by \<open>calculateVolumeFromDistance\<close> and
  \<open>calculateDistanceEffects\<close>. HOL's \<open>x / 0\<close> is \<open>0\<close> where JavaScript gives an infinity
  or NaN; the statements that depend on the quotient assume \<open>minDistance < maxDistance\<close>.
\<close>

definition normalizedDistance :: "service \<Rightarrow> real \<Rightarrow> real" where
  "normalizedDistance s distance =
     (let clampedDistance = max (minDistance s) (min (maxDistance s) distance)
      in (clampedDistance - minDistance s) / (maxDistance s - minDistance s))"

definition calculateVolumeFromDistance :: "service \<Rightarrow> real \<Rightarrow> real" where
  "calculateVolumeFromDistance s distance =
     max 0 (min 1 (volumeRatio (volumeCurve s) (normalizedDistance s distance)))
       * maxVolumeLimit s"

record Effects =
  eff_pitch :: real
  eff_filter :: real
  eff_reverb :: real

definition calculateDistanceEffects :: "service \<Rightarrow> real \<Rightarrow> Effects" where
  "calculateDistanceEffects s distance =
     (if \<not> enabled (distanceEffects s)
      then \<lparr> eff_pitch = 1, eff_filter = 1, eff_reverb = 0 \<rparr>
      else
        let n = normalizedDistance s distance;
            pitch1 =
              (if pitchEffect (distanceEffects s)
               then max (1 / 2) (min 2
                      (1 + (1 - n) * pitchRange (distanceEffects s) * (1 / 2)
                         - pitchRange (distanceEffects s) * (1 / 4)))
               else 1);
            filter1 =
              (if filterEffect (distanceEffects s)
               then max (1 / 10) (min 1 (3 / 10 + (1 - n) * filterRange (distanceEffects s)))
               else 1);
            reverb1 =
              (if reverbEffect (distanceEffects s)
               then max 0 (min (8 / 10) (n * reverbRange (distanceEffects s)))
               else 0)
        in \<lparr> eff_pitch = pitch1, eff_filter = filter1, eff_reverb = reverb1 \<rparr>)"

section \<open>EnhancedAudioSynthesisService: tracks\<close>

text \<open>
  \<open>setValueAtTime (v, currentTime)\<close> on a node parameter is modelled as the parameter
  taking the value \<open>v\<close>. Calls into the Web Audio API are taken not to throw, so the
  \<open>catch\<close> blocks are not reached.
\<close>

definition updateAudioTrack :: "service \<Rightarrow> AudioTrack \<Rightarrow> AudioTrack" where
  "updateAudioTrack s track =
     (if \<not> playing track \<or> \<not> audioContext s then track
      else
        let combinedVolume = volume track * nodeVolume track * globalVolume s;
            combinedPitch = pitch track * distancePitch track;
            combinedFilter = filter_usr track * distanceFilter track;
            combinedReverb = min (1 / 2) (reverb track + distanceReverb track)
        in track
           \<lparr> gainNode := map_option (\<lambda>_. combinedVolume) (gainNode track),
             oscillator :=
               map_option
                 (\<lambda>_. map_option (\<lambda>f. f * combinedPitch) (frequency_src (audioSource track)))
                 (oscillator track),
             audioSourceNode := map_option (\<lambda>_. combinedPitch) (audioSourceNode track),
             filterNode := map_option (\<lambda>_. 22050 * combinedFilter) (filterNode track),
             reverbNode := map_option (\<lambda>_. 3 / 100 + combinedReverb * (1 / 10)) (reverbNode track) \<rparr>)"

definition stopAudioTrack :: "service \<Rightarrow> string \<Rightarrow> service" where
  "stopAudioTrack s dev =
     (case audioTracks s dev of
        None \<Rightarrow> s
      | Some track \<Rightarrow>
          if \<not> playing track then s
          else s\<lparr>audioTracks := (audioTracks s)(dev \<mapsto>
                 track\<lparr> oscillator := None, audioSourceNode := None, gainNode := None,
                        filterNode := None, reverbNode := None, playing := False \<rparr>)\<rparr>)"

text \<open>
  \<open>startAudioTrack\<close> is an \<open>async\<close> function: it runs within the call up to its first
  \<open>await\<close>. For an \<open>'audio'\<close> source with a (non-empty) file that is
  \<open>await this.loadAudioFile (...)\<close>, reached before the track is touched, so the call
  itself leaves the service as it is and the rest runs later, outside the call. For every
  other source there is no \<open>await\<close> and the whole body runs within the call.
  The part after the \<open>await\<close> assigns only node fields and \<open>playing\<close> of the track it
  captured, and the buffer cache; it touches no configuration field.
  A fresh gain node has gain 1.
\<close>

definition startAudioTrack :: "service \<Rightarrow> string \<Rightarrow> service" where
  "startAudioTrack s dev =
     (case audioTracks s dev of
        None \<Rightarrow> s
      | Some track \<Rightarrow>
          if playing track \<or> \<not> audioContext s then s
          else if type_src (audioSource track) = audio_src
                  \<and> file_src (audioSource track) \<noteq> None
                  \<and> file_src (audioSource track) \<noteq> Some []
          then s
          else
            let track1 =
                  (if type_src (audioSource track) = oscillator_src
                   then track\<lparr>oscillator :=
                          Some (map_option (\<lambda>f. f * pitch track * distancePitch track)
                                  (frequency_src (audioSource track)))\<rparr>
                   else track);
                track2 = track1
                  \<lparr> gainNode := Some 1,
                    filterNode := Some (22050 * filter_usr track1 * distanceFilter track1),
                    reverbNode :=
                      Some (3 / 100 + (reverb track1 + distanceReverb track1) * (1 / 10)) \<rparr>;
                track3 =
                  (if oscillator track2 \<noteq> None \<or> audioSourceNode track2 \<noteq> None
                   then updateAudioTrack s (track2\<lparr>playing := True\<rparr>)
                   else track2)
            in s\<lparr>audioTracks := (audioTracks s)(dev \<mapsto> track3)\<rparr>)"

definition setAudioTrack :: "service \<Rightarrow> string \<Rightarrow> string \<Rightarrow> AudioSource \<Rightarrow> service" where
  "setAudioTrack s dev devName src =
     (let s1 = (if audioTracks s dev \<noteq> None then stopAudioTrack s dev else s)
      in s1\<lparr>audioTracks := (audioTracks s1)(dev \<mapsto>
             \<lparr> deviceId = dev, deviceName = devName, audioSource = src,
               volume = 0, nodeVolume = 7 / 10, pitch = 1, reverb = 2 / 10, filter_usr = 1,
               distancePitch = 1, distanceFilter = 1, distanceReverb = 0,
               playing = False, oscillator = None, audioSourceNode = None,
               gainNode = None, filterNode = None, reverbNode = None \<rparr>)\<rparr>)"

definition updateSensorDistance :: "service \<Rightarrow> string \<Rightarrow> real \<Rightarrow> service" where
  "updateSensorDistance s dev distance =
     (case audioTracks s dev of
        None \<Rightarrow> s
      | Some track \<Rightarrow>
          let newVolume = calculateVolumeFromDistance s distance;
              effects = calculateDistanceEffects s distance;
              track1 = track
                \<lparr> volume := newVolume,
                  distancePitch := eff_pitch effects,
                  distanceFilter := eff_filter effects,
                  distanceReverb := eff_reverb effects \<rparr>;
              track2 = (if playing track1 then updateAudioTrack s track1 else track1);
              s1 = s\<lparr>audioTracks := (audioTracks s)(dev \<mapsto> track2)\<rparr>
          in if newVolume > 0 \<and> \<not> playing track2 then startAudioTrack s1 dev
             else if newVolume = 0 \<and> playing track2 then stopAudioTrack s1 dev
             else s1)"

definition setTrackVolume :: "service \<Rightarrow> string \<Rightarrow> real \<Rightarrow> service" where
  "setTrackVolume s dev v =
     (case audioTracks s dev of
        None \<Rightarrow> s
      | Some track \<Rightarrow>
          let track1 = track\<lparr>nodeVolume := max 0 (min 1 v)\<rparr>;
              track2 = (if playing track1 then updateAudioTrack s track1 else track1)
          in s\<lparr>audioTracks := (audioTracks s)(dev \<mapsto> track2)\<rparr>)"

definition setTrackPitch :: "service \<Rightarrow> string \<Rightarrow> real \<Rightarrow> service" where
  "setTrackPitch s dev v =
     (case audioTracks s dev of
        None \<Rightarrow> s
      | Some track \<Rightarrow>
          let track1 = track\<lparr>pitch := max (1 / 2) (min 2 v)\<rparr>;
              track2 = (if playing track1 then updateAudioTrack s track1 else track1)
          in s\<lparr>audioTracks := (audioTracks s)(dev \<mapsto> track2)\<rparr>)"

definition setTrackReverb :: "service \<Rightarrow> string \<Rightarrow> real \<Rightarrow> service" where
  "setTrackReverb s dev v =
     (case audioTracks s dev of
        None \<Rightarrow> s
      | Some track \<Rightarrow>
          let track1 = track\<lparr>reverb := max 0 (min 1 v)\<rparr>;
              track2 = (if playing track1 then updateAudioTrack s track1 else track1)
          in s\<lparr>audioTracks := (audioTracks s)(dev \<mapsto> track2)\<rparr>)"

definition setTrackFilter :: "service \<Rightarrow> string \<Rightarrow> real \<Rightarrow> service" where
  "setTrackFilter s dev v =
     (case audioTracks s dev of
        None \<Rightarrow> s
      | Some track \<Rightarrow>
          let track1 = track\<lparr>filter_usr := max (1 / 10) (min 1 v)\<rparr>;
              track2 = (if playing track1 then updateAudioTrack s track1 else track1)
          in s\<lparr>audioTracks := (audioTracks s)(dev \<mapsto> track2)\<rparr>)"

definition setGlobalVolume :: "service \<Rightarrow> real \<Rightarrow> service" where
  "setGlobalVolume s v =
     (let s1 = s\<lparr>globalVolume := max 0 (min 1 v)\<rparr>
      in s1\<lparr>audioTracks :=
              (\<lambda>dev. map_option (\<lambda>track. if playing track then updateAudioTrack s1 track else track)
                        (audioTracks s1 dev))\<rparr>)"

definition removeAudioTrack :: "service \<Rightarrow> string \<Rightarrow> service" where
  "removeAudioTrack s dev =
     (let s1 = stopAudioTrack s dev
      in s1\<lparr>audioTracks := (audioTracks s1)(dev := None)\<rparr>)"

definition dispose :: "service \<Rightarrow> service" where
  "dispose s = s\<lparr>audioTracks := Map.empty, audioContext := False\<rparr>"

text \<open>
  The public methods that change the service, as calls, and a run of calls from a freshly
  constructed service. The constructor may fail to obtain an audio context, hence the
  parameter of \<open>initial_service\<close>. \<open>setDistanceRange\<close> is not among the calls: its guard
  depends on the rounding of \<open>minDistance + 1\<close>, and it is modelled in binary64 above.
\<close>

datatype call =
    SetVolumeCurve VolumeCurve
  | SetVolumeLimit real
  | SetDistanceEffects PartialDistanceEffects
  | SetGlobalVolume real
  | SetAudioTrack string string AudioSource
  | UpdateSensorDistance string real
  | StartAudioTrack string
  | StopAudioTrack string
  | SetTrackVolume string real
  | SetTrackPitch string real
  | SetTrackReverb string real
  | SetTrackFilter string real
  | RemoveAudioTrack string
  | Dispose

fun exec :: "service \<Rightarrow> call \<Rightarrow> service" where
  "exec s (SetVolumeCurve c) = setVolumeCurve s c"
| "exec s (SetVolumeLimit l) = setVolumeLimit s l"
| "exec s (SetDistanceEffects e) = setDistanceEffects s e"
| "exec s (SetGlobalVolume v) = setGlobalVolume s v"
| "exec s (SetAudioTrack dev devName src) = setAudioTrack s dev devName src"
| "exec s (UpdateSensorDistance dev d) = updateSensorDistance s dev d"
| "exec s (StartAudioTrack dev) = startAudioTrack s dev"
| "exec s (StopAudioTrack dev) = stopAudioTrack s dev"
| "exec s (SetTrackVolume dev v) = setTrackVolume s dev v"
| "exec s (SetTrackPitch dev v) = setTrackPitch s dev v"
| "exec s (SetTrackReverb dev v) = setTrackReverb s dev v"
| "exec s (SetTrackFilter dev v) = setTrackFilter s dev v"
| "exec s (RemoveAudioTrack dev) = removeAudioTrack s dev"
| "exec s Dispose = dispose s"

fun run :: "service \<Rightarrow> call list \<Rightarrow> service" where
  "run s [] = s"
| "run s (c # cs) = run (exec s c) cs"

section \<open>AudioSynthesisService: stopping a track\<close>

text \<open>
  The Tone.js based service keeps, per sensor, a synthesizer and the flag \<open>isPlaying\<close>.
  \<open>synthHeld\<close> is whether the synthesizer holds a note (\<open>triggerAttack\<close> sets it,
  \<open>triggerRelease\<close> clears it).
\<close>

record ToneTrack =
  sensorId :: string
  sensorName :: string
  currentDistance :: real
  currentVolume :: real
  synthHeld :: bool
  isPlaying :: bool

definition stopTrackAudio :: "ToneTrack \<Rightarrow> ToneTrack" where
  "stopTrackAudio track =
     (if \<not> isPlaying track then track
      else track\<lparr>synthHeld := False, isPlaying := False\<rparr>)"

section \<open>ProfessionalApp: the distance-to-volume mapping of the UI\<close>

text \<open>
  The React component keeps its settings in state variables; the decay type is a plain
  string set from a select box, and the \<open>switch\<close> treats every string other than
  \<open>'exponential'\<close> and \<open>'logarithmic'\<close> as linear. \<open>Math.round\<close> rounds to the nearest
  integer, halves upwards.
\<close>

record app_settings =
  app_volumeDecayType :: string
  app_minDistance :: real
  app_maxDistance :: real
  app_minVolume :: real
  app_maxVolume :: real

definition default_app_settings :: app_settings where
  "default_app_settings =
     \<lparr> app_volumeDecayType = ''linear'', app_minDistance = 5, app_maxDistance = 200,
       app_minVolume = 5, app_maxVolume = 100 \<rparr>"

definition Math_round :: "real \<Rightarrow> real" where
  "Math_round x = of_int \<lfloor>x + 1 / 2\<rfloor>"

definition app_volumeRatio :: "string \<Rightarrow> real \<Rightarrow> real" where
  "app_volumeRatio decayType n =
     (if decayType = ''exponential'' then exp (- 3 * n)
      else if decayType = ''logarithmic'' then 1 - ln (1 + n * 9) / ln 10
      else 1 - n)"

definition app_calculateVolumeFromDistance :: "app_settings \<Rightarrow> real \<Rightarrow> real" where
  "app_calculateVolumeFromDistance cfg distance =
     (if distance \<le> app_minDistance cfg then app_maxVolume cfg
      else if distance \<ge> app_maxDistance cfg then app_minVolume cfg
      else
        let n = (distance - app_minDistance cfg) / (app_maxDistance cfg - app_minDistance cfg)
        in Math_round (app_minVolume cfg
             + (app_maxVolume cfg - app_minVolume cfg) * app_volumeRatio (app_volumeDecayType cfg) n))"

section \<open>The mapping as the specification words it\<close>

text \<open>
  These definitions follow the sentences of the specification, not the code; the
  theorems below compare the code with them.
  \<^item> \<open>spec_clamp x lo hi\<close> is \<open>clamp (x, lo, hi)\<close>.
  \<^item> \<open>spec_finalVolume\<close> is
    \<open>clamp (minVolume + (maxVolume - minVolume) \<sqdot> volumeRatio, 0, volumeLimit)\<close>.
  \<^item> \<open>spec_t\<close> is the distance clamped to \<open>[minDistance, maxDistance]\<close> and normalised.
  \<^item> \<open>spec_volumeRatio k eps\<close> gives the four curves; for the inverse square,
    \<open>1 / (eps + t)\<^sup>2\<close> is normalised into \<open>[0, 1]\<close> by dividing by its largest value,
    the one at \<open>t = 0\<close>.
  \<^item> \<open>spec_pitch\<close> is \<open>1 + (1 - t) \<sqdot> pitchRange - pitchRange / 2\<close> clamped to
    \<open>[0.5, 2.0]\<close>.
\<close>

definition spec_clamp :: "real \<Rightarrow> real \<Rightarrow> real \<Rightarrow> real" where
  "spec_clamp x lo hi = max lo (min hi x)"

definition spec_finalVolume :: "real \<Rightarrow> real \<Rightarrow> real \<Rightarrow> real \<Rightarrow> real" where
  "spec_finalVolume minVolume maxVolume volumeLimit ratio =
     spec_clamp (minVolume + (maxVolume - minVolume) * ratio) 0 volumeLimit"

definition spec_t :: "real \<Rightarrow> real \<Rightarrow> real \<Rightarrow> real" where
  "spec_t minD maxD distance = (spec_clamp distance minD maxD - minD) / (maxD - minD)"

definition spec_volumeRatio :: "real \<Rightarrow> real \<Rightarrow> VolumeCurve \<Rightarrow> real \<Rightarrow> real" where
  "spec_volumeRatio k eps curve t =
     (case curve of
        linear \<Rightarrow> 1 - t
      | exponential \<Rightarrow> exp (- k * t)
      | logarithmic \<Rightarrow> 1 - log 10 (1 + 9 * t)
      | inverse_square \<Rightarrow> (1 / (eps + t)\<^sup>2) / (1 / eps\<^sup>2))"

definition spec_pitch :: "real \<Rightarrow> real \<Rightarrow> real" where
  "spec_pitch pRange t = spec_clamp (1 + (1 - t) * pRange - pRange / 2) (1 / 2) 2"

text \<open>Concrete inputs used in the examples below.\<close>

definition osc_mid :: AudioSource where
  "osc_mid =
     \<lparr> id_src = ''osc_mid'', name_src = ''Mid Tone'', type_src = oscillator_src,
       frequency_src = Some 440, file_src = None, category_src = Some ''synth'' \<rparr>"

definition all_effects_off :: PartialDistanceEffects where
  "all_effects_off =
     \<lparr> p_enabled = Some False, p_pitchEffect = Some False, p_filterEffect = Some False,
       p_reverbEffect = Some False, p_pitchRange = None, p_filterRange = None,
       p_reverbRange = None \<rparr>"

section \<open>TrilaterationSolver\<close>

text \<open>
  Modelled from the spec: the trilateration solver (\<open>solve\<close>, with its helpers for circle
  intersection, triangle validation, area and centroid). Its code, the Python of the
  desktop application, is not among the sources; only documents describe it. The
  definitions follow section 4.2 of the specification sentence by sentence. The
  orientation of the two intersection points and the selection loop
  (\<open>if area < min_area and valid_triangle\<close>, candidates taken in the order pair (1,2),
  pair (1,3), pair (2,3)) are as the repository's algorithm note prints them.

  The specification enumerates the candidate triangles for three sensors and says
  nothing further for more; the solver is therefore modelled for three sensors, the case
  the specification describes. The freshness check on samples (\<open>StaleInput\<close>) precedes the
  solver's input of (position, radius) pairs and is not part of it.

  The arithmetic is exact. The validation of a triangle against its circles guards
  against rounding and can never reject in exact arithmetic with a tolerance of 0 or
  more (shown below); candidates whose areas are equal here may differ in the last bits
  when computed in binary64.
\<close>

type_synonym point = "real \<times> real"
type_synonym circle = "point \<times> real"
type_synonym triangle = "point \<times> point \<times> point"

record solver_config =
  tolerance :: real
  referenceArea :: real

record EstimatedPosition =
  est_x :: real
  est_y :: real
  triangleArea :: real
  qualityScore :: real

datatype SolverError = InsufficientGeometry

definition distance_to :: "point \<Rightarrow> point \<Rightarrow> real" where
  "distance_to p q = sqrt ((fst p - fst q)\<^sup>2 + (snd p - snd q)\<^sup>2)"

definition find_circle_intersections :: "circle \<Rightarrow> circle \<Rightarrow> point list" where
  "find_circle_intersections ci cj =
     (let d = distance_to (fst ci) (fst cj); r_i = snd ci; r_j = snd cj
      in if d > r_i + r_j \<or> d < \<bar>r_i - r_j\<bar> \<or> d = 0 then []
         else
           let a = (r_i\<^sup>2 - r_j\<^sup>2 + d\<^sup>2) / (2 * d);
               h = sqrt (max 0 (r_i\<^sup>2 - a\<^sup>2));
               px = fst (fst ci) + a * (fst (fst cj) - fst (fst ci)) / d;
               py = snd (fst ci) + a * (snd (fst cj) - snd (fst ci)) / d
           in [(px + h * (snd (fst cj) - snd (fst ci)) / d,
                py - h * (fst (fst cj) - fst (fst ci)) / d),
               (px - h * (snd (fst cj) - snd (fst ci)) / d,
                py + h * (fst (fst cj) - fst (fst ci)) / d)])"

definition on_circle :: "real \<Rightarrow> point \<Rightarrow> circle \<Rightarrow> bool" where
  "on_circle eps p c = (\<bar>distance_to p (fst c) - snd c\<bar> \<le> eps)"

definition verify_triangle_on_circles ::
    "real \<Rightarrow> circle \<Rightarrow> circle \<Rightarrow> circle \<Rightarrow> triangle \<Rightarrow> bool" where
  "verify_triangle_on_circles eps c1 c2 c3 tri =
     (case tri of (p12, p13, p23) \<Rightarrow>
        on_circle eps p12 c1 \<and> on_circle eps p12 c2
        \<and> on_circle eps p13 c1 \<and> on_circle eps p13 c3
        \<and> on_circle eps p23 c2 \<and> on_circle eps p23 c3)"

definition triangle_area :: "triangle \<Rightarrow> real" where
  "triangle_area tri =
     (case tri of ((x1, y1), (x2, y2), (x3, y3)) \<Rightarrow>
        \<bar>x1 * (y2 - y3) + x2 * (y3 - y1) + x3 * (y1 - y2)\<bar> / 2)"

definition centroid :: "triangle \<Rightarrow> point" where
  "centroid tri =
     (case tri of ((x1, y1), (x2, y2), (x3, y3)) \<Rightarrow> ((x1 + x2 + x3) / 3, (y1 + y2 + y3) / 3))"

text \<open>Each candidate triangle of a sensor triple, paired with the outcome of its validation.\<close>

definition triangle_candidates ::
    "real \<Rightarrow> circle \<times> circle \<times> circle \<Rightarrow> (triangle \<times> bool) list" where
  "triangle_candidates eps cs =
     (case cs of (c1, c2, c3) \<Rightarrow>
        concat (map (\<lambda>pt12.
          concat (map (\<lambda>pt13.
            map (\<lambda>pt23. ((pt12, pt13, pt23),
                          verify_triangle_on_circles eps c1 c2 c3 (pt12, pt13, pt23)))
              (find_circle_intersections c2 c3))
            (find_circle_intersections c1 c3)))
          (find_circle_intersections c1 c2)))"

text \<open>
  The selection loop. \<open>best\<close> is \<open>None\<close> while \<open>min_area\<close> is still infinite, and then
  holds \<open>min_area\<close> and \<open>best_triangle\<close>.
\<close>

fun select_min_area ::
    "(real \<times> triangle) option \<Rightarrow> (triangle \<times> bool) list \<Rightarrow> (real \<times> triangle) option" where
  "select_min_area best [] = best"
| "select_min_area best (c # cs) =
     select_min_area
       (let area = triangle_area (fst c)
        in if (case best of None \<Rightarrow> True | Some m \<Rightarrow> area < fst m) \<and> snd c
           then Some (area, fst c) else best)
       cs"

definition solve ::
    "solver_config \<Rightarrow> circle \<times> circle \<times> circle \<Rightarrow> SolverError + EstimatedPosition" where
  "solve cfg sensors =
     (case sensors of (c1, c2, c3) \<Rightarrow>
        if (find_circle_intersections c1 c2 = [] \<and> find_circle_intersections c1 c3 = []
              \<and> find_circle_intersections c2 c3 = [])
           \<or> length (filter snd (triangle_candidates (tolerance cfg) sensors)) < 3
        then Inl InsufficientGeometry
        else
          case select_min_area None (triangle_candidates (tolerance cfg) sensors) of
            None \<Rightarrow> Inl InsufficientGeometry
          | Some m \<Rightarrow>
              Inr \<lparr> est_x = fst (centroid (snd m)), est_y = snd (centroid (snd m)),
                    triangleArea = fst m,
                    qualityScore = 1 - min 1 (fst m / referenceArea cfg) \<rparr>)"


definition example_sensors :: "circle \<times> circle \<times> circle" where
  "example_sensors = (((0, 0), 25), ((- 10, 24), 17), ((18, 24), 25))"

definition example_config :: solver_config where
  "example_config = \<lparr> tolerance = 1 / 1000, referenceArea = 10000 \<rparr>"

definition playing_service :: service where
  "playing_service =
     run (initial_service True)
       [SetAudioTrack ''dev1'' ''Sensor A'' osc_mid, UpdateSensorDistance ''dev1'' 5]"

section \<open>The distance range\<close>

lemma binary64_zero: "binary64 0 = Num 0"
  by (simp add: binary64_def)

lemma binary64_absorbs_one: "binary64 9007199254740993 = Num 9007199254740992"
  by code_simp

lemma binary64_six: "binary64 6 = Num 6"
  by code_simp

text \<open>An ordinary call: the range 5 cm to 200 cm is stored as given.\<close>

lemma distance_range_ordinary: "setDistanceRange (Num 5) (Num 200) = (Num 5, Num 200)"
  by (simp add: setDistanceRange_def Math_max_def binary64_six Let_def)

text \<open>
  C9. The claim says that \<open>setDistanceRange\<close> keeps \<open>maxDistance \<ge> minDistance + 1\<close> for
  every pair of arguments, so that the divisor \<open>maxDistance - minDistance\<close> is never 0.
  The guard \<open>Math.max (this.minDistance + 1, maxDistance)\<close> is there for that, but from
  \<open>2\<^sup>5\<^sup>3\<close> upwards the sum \<open>minDistance + 1\<close> rounds back to \<open>minDistance\<close>. After
  \<open>setDistanceRange (2\<^sup>5\<^sup>3, 0)\<close> both fields hold \<open>2\<^sup>5\<^sup>3\<close>, the divisor is 0 and the
  normalised distance is NaN for every distance.
\<close>

theorem distance_range_divisor_zero:
  "setDistanceRange (Num (2 ^ 53)) (Num 0) = (Num (2 ^ 53), Num (2 ^ 53))
   \<and> num_sub (Num (2 ^ 53)) (Num (2 ^ 53)) = Num 0
   \<and> normalizedDistance_binary64 (Num (2 ^ 53)) (Num (2 ^ 53)) distance = NaN"
  by (cases distance)
     (simp_all add: setDistanceRange_def normalizedDistance_binary64_def Math_max_def
        Math_min_def num_sub_def binary64_absorbs_one binary64_zero Let_def)

section \<open>Devices without a track\<close>

text \<open>
  C10. For a device id with no registered track, \<open>updateSensorDistance\<close>,
  \<open>setTrackVolume\<close>, \<open>setTrackPitch\<close>, \<open>setTrackReverb\<close> and \<open>setTrackFilter\<close> return
  the service unchanged: every track and every configuration field is as before, and no
  error is raised (the model has no error branch because the code has none).
\<close>

theorem untracked_device_noop:
  "audioTracks s dev = None \<Longrightarrow>
     updateSensorDistance s dev d = s
     \<and> setTrackVolume s dev v = s
     \<and> setTrackPitch s dev v = s
     \<and> setTrackReverb s dev v = s
     \<and> setTrackFilter s dev v = s"
  by (simp add: updateSensorDistance_def setTrackVolume_def setTrackPitch_def
        setTrackReverb_def setTrackFilter_def)

theorem untracked_device_noop_witness:
  "audioTracks (initial_service True) ''HC-05'' = None
   \<and> updateSensorDistance (initial_service True) ''HC-05'' 42 = initial_service True
   \<and> setTrackVolume (initial_service True) ''HC-05'' (1 / 2) = initial_service True
   \<and> setTrackPitch (initial_service True) ''HC-05'' (1 / 2) = initial_service True
   \<and> setTrackReverb (initial_service True) ''HC-05'' (1 / 2) = initial_service True
   \<and> setTrackFilter (initial_service True) ''HC-05'' (1 / 2) = initial_service True"
proof -
  have h: "audioTracks (initial_service True) ''HC-05'' = None"
    by (simp add: initial_service_def)
  show ?thesis
    using h untracked_device_noop [OF h, of 42 "1 / 2"] by simp
qed

section \<open>Stopping\<close>

text \<open>
  C7. For a device whose track is playing, \<open>stopAudioTrack\<close> leaves the track registered
  and not playing within the same call, with every audio node released; the service keeps
  no remaining-duration state that could delay it. \<open>stopTrackAudio\<close> of the Tone.js
  service likewise clears \<open>isPlaying\<close> of a playing track.
\<close>

theorem stop_playing_now:
  "(audioTracks s dev = Some track \<and> playing track \<longrightarrow>
      (\<exists>track'. audioTracks (stopAudioTrack s dev) dev = Some track'
         \<and> \<not> playing track'
         \<and> oscillator track' = None \<and> audioSourceNode track' = None
         \<and> gainNode track' = None \<and> filterNode track' = None \<and> reverbNode track' = None))
   \<and> (isPlaying t \<longrightarrow> \<not> isPlaying (stopTrackAudio t))"
  by (simp add: stopAudioTrack_def stopTrackAudio_def)

text \<open>The service after one track was registered and a first distance of 5 cm arrived.\<close>

lemma playing_service_eq:
  "playing_service = (initial_service True)\<lparr>audioTracks := [''dev1'' \<mapsto>
      \<lparr> deviceId = ''dev1'', deviceName = ''Sensor A'', audioSource = osc_mid,
       volume = 4 / 5, nodeVolume = 7 / 10, pitch = 1, reverb = 2 / 10, filter_usr = 1,
       distancePitch = 43 / 40, distanceFilter = 1, distanceReverb = 0,
       playing = True, oscillator = Some (Some 473), audioSourceNode = None,
       gainNode = Some (49 / 125), filterNode = Some 22050, reverbNode = Some (1 / 20) \<rparr>]\<rparr>"
  by (simp add: playing_service_def setAudioTrack_def updateSensorDistance_def
        calculateVolumeFromDistance_def calculateDistanceEffects_def normalizedDistance_def
        volumeRatio_def startAudioTrack_def updateAudioTrack_def initial_service_def
        osc_mid_def Let_def)

theorem stop_playing_now_witness:
  "map_option playing (audioTracks playing_service ''dev1'') = Some True
   \<and> map_option playing (audioTracks (stopAudioTrack playing_service ''dev1'') ''dev1'')
       = Some False
   \<and> \<not> isPlaying (stopTrackAudio
         \<lparr> sensorId = ''s1'', sensorName = ''Sensor A'', currentDistance = 40,
           currentVolume = 4 / 5, synthHeld = True, isPlaying = True \<rparr>)"
  using stop_playing_now
    [of playing_service "''dev1''" "the (audioTracks playing_service ''dev1'')"
       "\<lparr> sensorId = ''s1'', sensorName = ''Sensor A'', currentDistance = 40,
           currentVolume = 4 / 5, synthHeld = True, isPlaying = True \<rparr>"]
  by (auto simp add: playing_service_eq)

section \<open>Distance updates during playback\<close>





section \<open>Switching distance effects off\<close>

text \<open>
  C6, as stated, fails for the volume mapping: \<open>DistanceEffects\<close> has switches for pitch,
  filter and reverb and a master switch, and none for volume. With every switch off the
  volume still follows the distance: 4/5 at 5 cm and 1/125 at 200 cm.
\<close>

theorem volume_has_no_switch_counterexample:
  "enabled (distanceEffects (setDistanceEffects (initial_service True) all_effects_off)) = False
   \<and> calculateVolumeFromDistance (setDistanceEffects (initial_service True) all_effects_off) 5 = 4 / 5
   \<and> calculateVolumeFromDistance (setDistanceEffects (initial_service True) all_effects_off) 200 = 1 / 125"
  by (simp add: setDistanceEffects_def all_effects_off_def or_else_def initial_service_def
        calculateVolumeFromDistance_def normalizedDistance_def volumeRatio_def Let_def)

text \<open>
  C6, amended. The three sub-mappings pitch, filter and reverb can each be switched off,
  and a switched-off effect returns its neutral value for every distance: pitch 1,
  filter 1 (the largest value the filter mapping returns), reverb 0; the master switch
  \<open>enabled\<close> returns all three neutral values. Each switch is independent: an effect's
  value does not depend on the switches of the other two. The volume mapping has no
  switch: it does not depend on the effect settings.
\<close>

theorem effect_switches:
  "(\<not> pitchEffect (distanceEffects s) \<longrightarrow> eff_pitch (calculateDistanceEffects s d) = 1)
   \<and> (\<not> filterEffect (distanceEffects s) \<longrightarrow> eff_filter (calculateDistanceEffects s d) = 1)
   \<and> (\<not> reverbEffect (distanceEffects s) \<longrightarrow> eff_reverb (calculateDistanceEffects s d) = 0)
   \<and> (\<not> enabled (distanceEffects s) \<longrightarrow>
         calculateDistanceEffects s d = \<lparr> eff_pitch = 1, eff_filter = 1, eff_reverb = 0 \<rparr>)
   \<and> eff_filter (calculateDistanceEffects s d) \<le> 1
   \<and> eff_pitch (calculateDistanceEffects
         (s\<lparr>distanceEffects := (distanceEffects s)\<lparr>filterEffect := b1, reverbEffect := b2\<rparr>\<rparr>) d)
       = eff_pitch (calculateDistanceEffects s d)
   \<and> eff_filter (calculateDistanceEffects
         (s\<lparr>distanceEffects := (distanceEffects s)\<lparr>pitchEffect := b1, reverbEffect := b2\<rparr>\<rparr>) d)
       = eff_filter (calculateDistanceEffects s d)
   \<and> eff_reverb (calculateDistanceEffects
         (s\<lparr>distanceEffects := (distanceEffects s)\<lparr>pitchEffect := b1, filterEffect := b2\<rparr>\<rparr>) d)
       = eff_reverb (calculateDistanceEffects s d)
   \<and> calculateVolumeFromDistance (s\<lparr>distanceEffects := fx\<rparr>) d = calculateVolumeFromDistance s d"
  by (simp add: calculateDistanceEffects_def calculateVolumeFromDistance_def
        normalizedDistance_def Let_def)

theorem effect_switches_witness:
  "calculateDistanceEffects (setDistanceEffects (initial_service True) all_effects_off) 42
     = \<lparr> eff_pitch = 1, eff_filter = 1, eff_reverb = 0 \<rparr>
   \<and> eff_pitch (calculateDistanceEffects
        ((initial_service True)\<lparr>distanceEffects :=
            (distanceEffects (initial_service True))\<lparr>pitchEffect := False\<rparr>\<rparr>) 5) = 1
   \<and> eff_filter (calculateDistanceEffects
        ((initial_service True)\<lparr>distanceEffects :=
            (distanceEffects (initial_service True))\<lparr>pitchEffect := False\<rparr>\<rparr>) 200) = 3 / 10"
  using effect_switches [of "setDistanceEffects (initial_service True) all_effects_off" 42]
    effect_switches [of "(initial_service True)\<lparr>distanceEffects :=
            (distanceEffects (initial_service True))\<lparr>pitchEffect := False\<rparr>\<rparr>" 5]
  by (simp add: setDistanceEffects_def all_effects_off_def or_else_def initial_service_def
        calculateDistanceEffects_def normalizedDistance_def Let_def)

section \<open>The pitch mapping\<close>

text \<open>
  C5. The claim's formula is \<open>1 + (1 - t) \<sqdot> pitchRange - pitchRange / 2\<close>, clamped to
  \<open>[0.5, 2]\<close>; the comment above the code promises the same span (0.85 to 1.15 for the
  default range 0.3). The code multiplies the range by 0.5 and 0.25 instead of 1 and 0.5.
  At the default configuration and a distance of 5 cm (\<open>t = 0\<close>) the code returns
  43/40 = 1.075 where the claim's formula gives 23/20 = 1.15.
\<close>

theorem pitch_half_range:
  "eff_pitch (calculateDistanceEffects (initial_service True) 5) = 43 / 40
   \<and> spec_pitch (pitchRange (distanceEffects (initial_service True)))
        (spec_t (minDistance (initial_service True)) (maxDistance (initial_service True)) 5)
      = 23 / 20"
  by (simp add: calculateDistanceEffects_def normalizedDistance_def initial_service_def Let_def
        spec_pitch_def spec_t_def spec_clamp_def)

text \<open>In general the code computes the claim's formula at half the configured range.\<close>

lemma pitch_is_spec_at_half_range:
  "enabled (distanceEffects s) \<Longrightarrow> pitchEffect (distanceEffects s) \<Longrightarrow>
     eff_pitch (calculateDistanceEffects s d)
       = spec_pitch (pitchRange (distanceEffects s) / 2) (normalizedDistance s d)"
  by (simp add: calculateDistanceEffects_def spec_pitch_def spec_clamp_def Let_def)

section \<open>The volume curves\<close>

lemma normalizedDistance_spec_t:
  "normalizedDistance s d = spec_t (minDistance s) (maxDistance s) d"
  by (simp add: normalizedDistance_def spec_t_def spec_clamp_def Let_def)

lemma normalizedDistance_bounds:
  assumes "minDistance s < maxDistance s"
  shows "0 \<le> normalizedDistance s d" and "normalizedDistance s d \<le> 1"
proof -
  have pos: "0 < maxDistance s - minDistance s"
    using assms by simp
  have lo: "0 \<le> max (minDistance s) (min (maxDistance s) d) - minDistance s" by simp
  have hi: "max (minDistance s) (min (maxDistance s) d) - minDistance s
              \<le> maxDistance s - minDistance s"
    using pos by simp
  show "0 \<le> normalizedDistance s d"
    using lo pos by (simp add: normalizedDistance_def Let_def)
  show "normalizedDistance s d \<le> 1"
    using hi pos by (simp add: normalizedDistance_def Let_def)
qed

lemma normalizedDistance_mono:
  assumes "minDistance s < maxDistance s" and "d1 \<le> d2"
  shows "normalizedDistance s d1 \<le> normalizedDistance s d2"
proof -
  have pos: "0 < maxDistance s - minDistance s"
    using assms(1) by simp
  have "max (minDistance s) (min (maxDistance s) d1) - minDistance s
          \<le> max (minDistance s) (min (maxDistance s) d2) - minDistance s"
    using assms(2) by (simp add: max.coboundedI2 min.coboundedI2)
  then show ?thesis
    using pos by (simp add: normalizedDistance_def Let_def divide_right_mono)
qed

lemma inverse_square_closed_form:
  assumes "0 \<le> t"
  shows "volumeRatio inverse_square t = 1 / (1 + 9 * t)\<^sup>2"
proof -
  have "(t * (9 / 10) + 1 / 10) * (t * (9 / 10) + 1 / 10) * 100 = (1 + 9 * t)\<^sup>2"
    by (simp add: power2_eq_square algebra_simps)
  then have r: "1 / ((t * (9 / 10) + 1 / 10) * (t * (9 / 10) + 1 / 10)) / 100 = 1 / (1 + 9 * t)\<^sup>2"
    by (simp only: divide_divide_eq_left)
  have ge1: "1 \<le> (1 + 9 * t)\<^sup>2"
    using assms by (simp add: one_le_power)
  then have le1: "1 / (1 + 9 * t)\<^sup>2 \<le> 1"
    by (simp add: divide_le_eq_1)
  have "volumeRatio inverse_square t = min 1 (1 / (1 + 9 * t)\<^sup>2)"
    unfolding volumeRatio_def by (simp only: VolumeCurve.case Let_def r)
  then show ?thesis using le1 by (simp add: min_def)
qed

lemma logarithmic_closed_form:
  assumes "0 \<le> t" and "t \<le> 1"
  shows "volumeRatio logarithmic t = 1 - log 10 (1 + 9 * t)"
proof -
  have "log 10 (1 + 9 * t) \<le> log 10 10"
    using assms by (simp del: log_eq_one)
  then have "log 10 (1 + 9 * t) \<le> 1" by simp
  then show ?thesis
    by (simp add: volumeRatio_def add.commute mult.commute)
qed

lemma spec_inverse_square_ninth:
  assumes "0 \<le> t"
  shows "spec_volumeRatio k (1 / 9) inverse_square t = 1 / (1 + 9 * t)\<^sup>2"
proof -
  have "(1 / 9 + t)\<^sup>2 * 81 = (1 + 9 * t)\<^sup>2"
    by (simp add: power2_eq_square field_simps)
  then have "81 * (1 / 9 + t)\<^sup>2 = (1 + 9 * t)\<^sup>2" by (simp add: mult.commute)
  moreover have "(1 / 9 + t)\<^sup>2 \<noteq> 0" using assms by simp
  ultimately show ?thesis
    by (simp add: spec_volumeRatio_def power2_eq_square field_simps)
qed

lemma volumeRatio_mono:
  assumes "0 \<le> t1" and "t1 \<le> t2" and "t2 \<le> 1"
  shows "volumeRatio c t2 \<le> volumeRatio c t1"
proof -
  have t2: "0 \<le> t2" and t1: "t1 \<le> 1" using assms by simp_all
  show ?thesis
  proof (cases c)
    case inverse_square
    have "(1 + 9 * t1)\<^sup>2 \<le> (1 + 9 * t2)\<^sup>2"
      using assms by (intro power_mono) simp_all
    moreover have "0 < (1 + 9 * t1)\<^sup>2"
      using assms(1) by (simp add: zero_less_power add_pos_nonneg)
    ultimately have "1 / (1 + 9 * t2)\<^sup>2 \<le> 1 / (1 + 9 * t1)\<^sup>2"
      by (simp add: frac_le)
    then show ?thesis
      using inverse_square assms(1) t2 by (simp add: inverse_square_closed_form)
  next
    case exponential
    then show ?thesis using assms by (simp add: volumeRatio_def)
  next
    case logarithmic
    have "log 10 (1 + 9 * t1) \<le> log 10 (1 + 9 * t2)"
      using assms by simp
    then show ?thesis
      using logarithmic assms t1 t2 by (simp add: logarithmic_closed_form)
  next
    case linear
    then show ?thesis using assms by (simp add: volumeRatio_def)
  qed
qed

lemma volumeRatio_range:
  assumes "0 \<le> t" and "t \<le> 1"
  shows "0 \<le> volumeRatio c t" and "volumeRatio c t \<le> 1"
proof -
  have "volumeRatio c t \<le> volumeRatio c 0"
    using assms by (intro volumeRatio_mono) simp_all
  moreover have "volumeRatio c 0 = 1"
    by (cases c) (simp_all add: volumeRatio_def)
  ultimately show "volumeRatio c t \<le> 1" by simp
  have "volumeRatio c 1 \<le> volumeRatio c t"
    using assms by (intro volumeRatio_mono) simp_all
  moreover have "0 \<le> volumeRatio c 1"
    by (cases c) (simp_all add: volumeRatio_def)
  ultimately show "0 \<le> volumeRatio c t" by simp
qed

section \<open>The final volume\<close>

lemma calculateVolume_as_spec:
  assumes "minDistance s < maxDistance s" and "0 \<le> maxVolumeLimit s"
  shows "calculateVolumeFromDistance s d =
     spec_finalVolume 0 (maxVolumeLimit s) (maxVolumeLimit s)
       (volumeRatio (volumeCurve s) (spec_t (minDistance s) (maxDistance s) d))"
proof -
  let ?r = "volumeRatio (volumeCurve s) (normalizedDistance s d)"
  have r0: "0 \<le> ?r" and r1: "?r \<le> 1"
    using normalizedDistance_bounds [OF assms(1)] by (simp_all add: volumeRatio_range)
  have l0: "0 \<le> maxVolumeLimit s" using assms(2) .
  have "maxVolumeLimit s * ?r \<le> maxVolumeLimit s * 1"
    using r1 l0 by (rule mult_left_mono)
  moreover have "0 \<le> maxVolumeLimit s * ?r" using r0 l0 by simp
  ultimately have "spec_finalVolume 0 (maxVolumeLimit s) (maxVolumeLimit s) ?r
      = maxVolumeLimit s * ?r"
    by (simp add: spec_finalVolume_def spec_clamp_def)
  moreover have "calculateVolumeFromDistance s d = ?r * maxVolumeLimit s"
    using r0 r1 by (simp add: calculateVolumeFromDistance_def)
  ultimately show ?thesis
    by (simp add: normalizedDistance_spec_t mult.commute)
qed

lemma Math_round_near: "Math_round x \<in> \<int> \<and> \<bar>Math_round x - x\<bar> \<le> 1 / 2"
proof -
  have "of_int \<lfloor>x + 1 / 2\<rfloor> \<le> x + 1 / 2"
    and "x + 1 / 2 < of_int \<lfloor>x + 1 / 2\<rfloor> + 1"
    by linarith+
  then have "\<bar>of_int \<lfloor>x + 1 / 2\<rfloor> - x\<bar> \<le> 1 / 2" by linarith
  then show ?thesis unfolding Math_round_def by simp
qed

text \<open>
  C2, as stated, fails on the UI's mapping, the one that has \<open>minVolume\<close> and
  \<open>maxVolume\<close>: it rounds to an integer and has no volume limit. With the default
  settings the UI returns 53 at 102 cm, where
  \<open>minVolume + (maxVolume - minVolume) \<sqdot> volumeRatio (t)\<close> is 2057/39; no volume limit
  makes the claim's clamp return 53.
\<close>

theorem volume_formula_counterexample:
  "\<not> (\<exists>L. \<forall>d. app_calculateVolumeFromDistance default_app_settings d =
        spec_finalVolume (app_minVolume default_app_settings) (app_maxVolume default_app_settings) L
          (app_volumeRatio (app_volumeDecayType default_app_settings)
             (spec_t (app_minDistance default_app_settings)
                (app_maxDistance default_app_settings) d)))"
proof
  assume "\<exists>L. \<forall>d. app_calculateVolumeFromDistance default_app_settings d =
        spec_finalVolume (app_minVolume default_app_settings) (app_maxVolume default_app_settings) L
          (app_volumeRatio (app_volumeDecayType default_app_settings)
             (spec_t (app_minDistance default_app_settings)
                (app_maxDistance default_app_settings) d))"
  then obtain L where "app_calculateVolumeFromDistance default_app_settings 102 =
        spec_finalVolume (app_minVolume default_app_settings) (app_maxVolume default_app_settings) L
          (app_volumeRatio (app_volumeDecayType default_app_settings)
             (spec_t (app_minDistance default_app_settings)
                (app_maxDistance default_app_settings) 102))"
    by blast
  moreover have "app_calculateVolumeFromDistance default_app_settings 102 = 53"
    by (simp add: app_calculateVolumeFromDistance_def default_app_settings_def Let_def
          app_volumeRatio_def Math_round_def)
  ultimately have "(53::real) = max 0 (min L (2057 / 39))"
    by (simp add: spec_finalVolume_def spec_clamp_def spec_t_def default_app_settings_def
          app_volumeRatio_def)
  then show False by (simp add: max_def min_def split: if_splits)
qed

lemma app_between:
  assumes "app_minDistance cfg < d" and "d < app_maxDistance cfg"
  shows "app_calculateVolumeFromDistance cfg d =
     Math_round (app_minVolume cfg + (app_maxVolume cfg - app_minVolume cfg)
        * app_volumeRatio (app_volumeDecayType cfg)
            (spec_t (app_minDistance cfg) (app_maxDistance cfg) d))"
proof -
  have "spec_t (app_minDistance cfg) (app_maxDistance cfg) d
      = (d - app_minDistance cfg) / (app_maxDistance cfg - app_minDistance cfg)"
    using assms by (simp add: spec_t_def spec_clamp_def)
  then show ?thesis
    using assms by (simp add: app_calculateVolumeFromDistance_def Let_def)
qed

text \<open>
  C2, amended. In \<open>EnhancedAudioSynthesisService\<close>, for every distance and every
  configuration with \<open>0 \<le> minDistance < maxDistance\<close> and \<open>volumeLimit \<ge> 0\<close> (finite
  numbers), the final volume is the claim's formula with \<open>minVolume = 0\<close> and
  \<open>maxVolume = volumeLimit\<close> (the service has no volume range of its own), that is
  \<open>volumeRatio (t) \<sqdot> volumeLimit\<close>. In \<open>ProfessionalApp\<close>, which has \<open>minVolume\<close> and
  \<open>maxVolume\<close> but no volume limit, the cases are tried in this order: at or below
  \<open>minDistance\<close> the volume is \<open>maxVolume\<close> (also when \<open>minDistance \<ge> maxDistance\<close>);
  otherwise, at or above \<open>maxDistance\<close> it is \<open>minVolume\<close>; otherwise, for settings with
  \<open>minDistance \<ge> 0\<close> and both volumes between 0 and 100, it is a whole number less than 1
  away from \<open>minVolume + (maxVolume - minVolume) \<sqdot> volumeRatio (t)\<close>, the result of
  \<open>Math.round\<close> on the computed value.
\<close>

theorem volume_formula:
  "(0 \<le> minDistance s \<and> minDistance s < maxDistance s \<and> 0 \<le> maxVolumeLimit s \<longrightarrow>
      calculateVolumeFromDistance s d =
        spec_finalVolume 0 (maxVolumeLimit s) (maxVolumeLimit s)
          (volumeRatio (volumeCurve s) (spec_t (minDistance s) (maxDistance s) d)))
   \<and> (d \<le> app_minDistance cfg \<longrightarrow>
         app_calculateVolumeFromDistance cfg d = app_maxVolume cfg)
   \<and> (app_minDistance cfg < d \<and> app_maxDistance cfg \<le> d \<longrightarrow>
         app_calculateVolumeFromDistance cfg d = app_minVolume cfg)
   \<and> (app_minDistance cfg < d \<and> d < app_maxDistance cfg \<and> 0 \<le> app_minDistance cfg
        \<and> 0 \<le> app_minVolume cfg \<and> app_minVolume cfg \<le> 100
        \<and> 0 \<le> app_maxVolume cfg \<and> app_maxVolume cfg \<le> 100 \<longrightarrow>
         app_calculateVolumeFromDistance cfg d \<in> \<int>
         \<and> \<bar>app_calculateVolumeFromDistance cfg d
              - (app_minVolume cfg + (app_maxVolume cfg - app_minVolume cfg)
                  * app_volumeRatio (app_volumeDecayType cfg)
                      (spec_t (app_minDistance cfg) (app_maxDistance cfg) d))\<bar> < 1)"
proof -
  have A: "0 \<le> minDistance s \<and> minDistance s < maxDistance s \<and> 0 \<le> maxVolumeLimit s \<longrightarrow>
      calculateVolumeFromDistance s d =
        spec_finalVolume 0 (maxVolumeLimit s) (maxVolumeLimit s)
          (volumeRatio (volumeCurve s) (spec_t (minDistance s) (maxDistance s) d))"
    using calculateVolume_as_spec by blast
  have B: "d \<le> app_minDistance cfg \<longrightarrow>
         app_calculateVolumeFromDistance cfg d = app_maxVolume cfg"
    by (simp add: app_calculateVolumeFromDistance_def)
  have C: "app_minDistance cfg < d \<and> app_maxDistance cfg \<le> d \<longrightarrow>
         app_calculateVolumeFromDistance cfg d = app_minVolume cfg"
    by (simp add: app_calculateVolumeFromDistance_def)
  have D: "app_minDistance cfg < d \<and> d < app_maxDistance cfg \<longrightarrow>
         app_calculateVolumeFromDistance cfg d \<in> \<int>
         \<and> \<bar>app_calculateVolumeFromDistance cfg d
              - (app_minVolume cfg + (app_maxVolume cfg - app_minVolume cfg)
                  * app_volumeRatio (app_volumeDecayType cfg)
                      (spec_t (app_minDistance cfg) (app_maxDistance cfg) d))\<bar> < 1"
  proof
    assume h: "app_minDistance cfg < d \<and> d < app_maxDistance cfg"
    let ?v = "app_minVolume cfg + (app_maxVolume cfg - app_minVolume cfg)
                  * app_volumeRatio (app_volumeDecayType cfg)
                      (spec_t (app_minDistance cfg) (app_maxDistance cfg) d)"
    have eq: "app_calculateVolumeFromDistance cfg d = Math_round ?v"
      using h by (simp add: app_between)
    have "Math_round ?v \<in> \<int> \<and> \<bar>Math_round ?v - ?v\<bar> \<le> 1 / 2"
      by (rule Math_round_near)
    then show "app_calculateVolumeFromDistance cfg d \<in> \<int>
         \<and> \<bar>app_calculateVolumeFromDistance cfg d - ?v\<bar> < 1"
      unfolding eq by simp
  qed
  show ?thesis using A B C D by blast
qed

theorem volume_formula_witness:
  "calculateVolumeFromDistance ((initial_service True)\<lparr>volumeCurve := linear\<rparr>) (205 / 2) = 2 / 5
   \<and> app_calculateVolumeFromDistance default_app_settings 102 \<in> \<int>
   \<and> \<bar>app_calculateVolumeFromDistance default_app_settings 102 - 2057 / 39\<bar> < 1"
  using volume_formula
      [of "(initial_service True)\<lparr>volumeCurve := linear\<rparr>" "205 / 2" default_app_settings]
    volume_formula
      [of "(initial_service True)\<lparr>volumeCurve := linear\<rparr>" 102 default_app_settings]
  by (simp add: initial_service_def spec_finalVolume_def spec_clamp_def
        spec_t_def volumeRatio_def default_app_settings_def app_volumeRatio_def)

section \<open>Monotonicity\<close>

lemma calculateVolume_mono:
  assumes "minDistance s < maxDistance s" and "0 \<le> maxVolumeLimit s" and "d1 \<le> d2"
  shows "calculateVolumeFromDistance s d2 \<le> calculateVolumeFromDistance s d1"
proof -
  have l0: "0 \<le> maxVolumeLimit s" using assms(2) .
  have "volumeRatio (volumeCurve s) (normalizedDistance s d2)
          \<le> volumeRatio (volumeCurve s) (normalizedDistance s d1)"
    using normalizedDistance_bounds [OF assms(1)] normalizedDistance_mono [OF assms(1) assms(3)]
    by (intro volumeRatio_mono) simp_all
  then have "max 0 (min 1 (volumeRatio (volumeCurve s) (normalizedDistance s d2)))
          \<le> max 0 (min 1 (volumeRatio (volumeCurve s) (normalizedDistance s d1)))"
    by (simp add: max.coboundedI2 min.coboundedI2)
  then show ?thesis
    unfolding calculateVolumeFromDistance_def using l0 by (rule mult_right_mono)
qed

lemma app_volumeRatio_mono:
  assumes "0 \<le> n1" and "n1 \<le> n2"
  shows "app_volumeRatio ty n2 \<le> app_volumeRatio ty n1"
proof -
  have "ln (1 + n1 * 9) \<le> ln (1 + n2 * 9)" using assms by simp
  then have "ln (1 + n1 * 9) / ln 10 \<le> ln (1 + n2 * 9) / ln 10"
    by (simp add: divide_right_mono)
  then show ?thesis using assms by (simp add: app_volumeRatio_def)
qed

lemma app_volumeRatio_range:
  assumes "0 \<le> n" and "n \<le> 1"
  shows "0 \<le> app_volumeRatio ty n" and "app_volumeRatio ty n \<le> 1"
proof -
  have "app_volumeRatio ty n \<le> app_volumeRatio ty 0"
    using assms by (intro app_volumeRatio_mono) simp_all
  moreover have "app_volumeRatio ty 0 = 1" by (simp add: app_volumeRatio_def)
  ultimately show "app_volumeRatio ty n \<le> 1" by simp
  have "app_volumeRatio ty 1 \<le> app_volumeRatio ty n"
    using assms by (intro app_volumeRatio_mono) simp_all
  moreover have "0 \<le> app_volumeRatio ty 1" by (simp add: app_volumeRatio_def)
  ultimately show "0 \<le> app_volumeRatio ty n" by simp
qed

lemma Math_round_mono: "x \<le> y \<Longrightarrow> Math_round x \<le> Math_round y"
  by (simp add: Math_round_def floor_mono)

lemma Math_round_int: "x \<in> \<int> \<Longrightarrow> Math_round x = x"
proof -
  assume "x \<in> \<int>"
  then obtain k where k: "x = of_int k" by (auto elim: Ints_cases)
  have "\<lfloor>of_int k + (1 / 2 :: real)\<rfloor> = k" by linarith
  then show ?thesis by (simp add: Math_round_def k)
qed

text \<open>The value the UI rounds, strictly between the two distance bounds.\<close>

lemma app_mid_bounds:
  assumes "app_minVolume cfg \<le> app_maxVolume cfg"
    and "app_minDistance cfg < d" and "d < app_maxDistance cfg"
  shows "app_minVolume cfg \<le> app_minVolume cfg + (app_maxVolume cfg - app_minVolume cfg)
            * app_volumeRatio ty ((d - app_minDistance cfg) / (app_maxDistance cfg - app_minDistance cfg))"
    and "app_minVolume cfg + (app_maxVolume cfg - app_minVolume cfg)
            * app_volumeRatio ty ((d - app_minDistance cfg) / (app_maxDistance cfg - app_minDistance cfg))
          \<le> app_maxVolume cfg"
proof -
  let ?n = "(d - app_minDistance cfg) / (app_maxDistance cfg - app_minDistance cfg)"
  have n: "0 \<le> ?n" "?n \<le> 1" using assms(2,3) by simp_all
  have r: "0 \<le> app_volumeRatio ty ?n" "app_volumeRatio ty ?n \<le> 1"
    using n by (simp_all add: app_volumeRatio_range)
  have w: "0 \<le> app_maxVolume cfg - app_minVolume cfg" using assms(1) by simp
  show "app_minVolume cfg \<le> app_minVolume cfg + (app_maxVolume cfg - app_minVolume cfg)
            * app_volumeRatio ty ?n"
    using w r(1) by simp
  have "(app_maxVolume cfg - app_minVolume cfg) * app_volumeRatio ty ?n
          \<le> (app_maxVolume cfg - app_minVolume cfg) * 1"
    using r(2) w by (rule mult_left_mono)
  then show "app_minVolume cfg + (app_maxVolume cfg - app_minVolume cfg)
            * app_volumeRatio ty ?n \<le> app_maxVolume cfg"
    by simp
qed

lemma app_calculateVolume_mono:
  assumes le: "app_minVolume cfg \<le> app_maxVolume cfg"
    and imin: "app_minVolume cfg \<in> \<int>" and imax: "app_maxVolume cfg \<in> \<int>"
    and d: "d1 \<le> d2"
  shows "app_calculateVolumeFromDistance cfg d2 \<le> app_calculateVolumeFromDistance cfg d1"
proof -
  let ?mid = "\<lambda>d. app_minVolume cfg + (app_maxVolume cfg - app_minVolume cfg)
            * app_volumeRatio (app_volumeDecayType cfg)
                ((d - app_minDistance cfg) / (app_maxDistance cfg - app_minDistance cfg))"
  have between: "app_minVolume cfg \<le> Math_round (?mid x) \<and> Math_round (?mid x) \<le> app_maxVolume cfg"
    if "app_minDistance cfg < x" "x < app_maxDistance cfg" for x
    using app_mid_bounds [OF le that] Math_round_mono [of "app_minVolume cfg" "?mid x"]
      Math_round_mono [of "?mid x" "app_maxVolume cfg"] Math_round_int [OF imin] Math_round_int [OF imax]
    by simp
  consider (lo) "d1 \<le> app_minDistance cfg"
    | (hi) "app_minDistance cfg < d1" "app_maxDistance cfg \<le> d2"
    | (mid) "app_minDistance cfg < d1" "d2 < app_maxDistance cfg"
    by linarith
  then show ?thesis
  proof cases
    case lo
    then show ?thesis
      using le between [of d2]
      by (simp add: app_calculateVolumeFromDistance_def Let_def)
  next
    case hi
    then show ?thesis
      using le d between [of d1]
      by (simp add: app_calculateVolumeFromDistance_def Let_def)
  next
    case mid
    have pos: "0 < app_maxDistance cfg - app_minDistance cfg" using mid d by simp
    have "(d1 - app_minDistance cfg) / (app_maxDistance cfg - app_minDistance cfg)
            \<le> (d2 - app_minDistance cfg) / (app_maxDistance cfg - app_minDistance cfg)"
      using d pos by (simp add: divide_right_mono)
    moreover have "0 \<le> (d1 - app_minDistance cfg) / (app_maxDistance cfg - app_minDistance cfg)"
      using mid pos by simp
    ultimately have "app_volumeRatio (app_volumeDecayType cfg)
              ((d2 - app_minDistance cfg) / (app_maxDistance cfg - app_minDistance cfg))
          \<le> app_volumeRatio (app_volumeDecayType cfg)
              ((d1 - app_minDistance cfg) / (app_maxDistance cfg - app_minDistance cfg))"
      by (intro app_volumeRatio_mono)
    then have "?mid d2 \<le> ?mid d1"
      using le by (simp add: mult_left_mono)
    then have "Math_round (?mid d2) \<le> Math_round (?mid d1)" by (rule Math_round_mono)
    then show ?thesis
      using mid d by (simp add: app_calculateVolumeFromDistance_def Let_def)
  qed
qed

text \<open>
  C3, as stated, fails on the UI's mapping for settings the input fields accept: with
  \<open>minVolume = 100\<close> and \<open>maxVolume = 0\<close> the volume is 0 at 5 cm and 100 at 200 cm; and
  with a fractional \<open>maxVolume = 99.6\<close> the rounding lifts the volume from 99.6 at 5 cm
  to 100 at 5.195 cm.
\<close>

theorem volume_monotone_counterexample:
  "(5::real) \<le> 200
   \<and> app_calculateVolumeFromDistance
        (default_app_settings\<lparr>app_minVolume := 100, app_maxVolume := 0\<rparr>) 5 = 0
   \<and> app_calculateVolumeFromDistance
        (default_app_settings\<lparr>app_minVolume := 100, app_maxVolume := 0\<rparr>) 200 = 100
   \<and> (5::real) \<le> 1039 / 200
   \<and> app_calculateVolumeFromDistance
        (default_app_settings\<lparr>app_minVolume := 0, app_maxVolume := 498 / 5\<rparr>) 5 = 498 / 5
   \<and> app_calculateVolumeFromDistance
        (default_app_settings\<lparr>app_minVolume := 0, app_maxVolume := 498 / 5\<rparr>) (1039 / 200) = 100"
  by (simp add: app_calculateVolumeFromDistance_def default_app_settings_def Let_def
        app_volumeRatio_def Math_round_def)

text \<open>
  C3, amended. In \<open>EnhancedAudioSynthesisService\<close>, for every configuration with
  \<open>0 \<le> minDistance < maxDistance\<close> and \<open>volumeLimit \<ge> 0\<close> (finite numbers) and each of
  the four curves, the volume is non-increasing in the distance. In \<open>ProfessionalApp\<close>
  the same holds for each of its three curves provided \<open>minDistance \<ge> 0\<close> and the two
  volumes are whole numbers with \<open>0 \<le> minVolume \<le> maxVolume \<le> 100\<close>, the range of the
  volume fields.
\<close>

theorem volume_monotone:
  "(0 \<le> minDistance s \<and> minDistance s < maxDistance s \<and> 0 \<le> maxVolumeLimit s \<and> d1 \<le> d2 \<longrightarrow>
      calculateVolumeFromDistance s d2 \<le> calculateVolumeFromDistance s d1)
   \<and> (0 \<le> app_minDistance cfg \<and> 0 \<le> app_minVolume cfg
        \<and> app_minVolume cfg \<le> app_maxVolume cfg \<and> app_maxVolume cfg \<le> 100
        \<and> app_minVolume cfg \<in> \<int> \<and> app_maxVolume cfg \<in> \<int> \<and> d1 \<le> d2 \<longrightarrow>
      app_calculateVolumeFromDistance cfg d2 \<le> app_calculateVolumeFromDistance cfg d1)"
  using calculateVolume_mono app_calculateVolume_mono
  by blast

theorem volume_monotone_witness:
  "calculateVolumeFromDistance ((initial_service True)\<lparr>volumeCurve := linear\<rparr>) 200
     \<le> calculateVolumeFromDistance ((initial_service True)\<lparr>volumeCurve := linear\<rparr>) 5
   \<and> app_calculateVolumeFromDistance default_app_settings 200
     \<le> app_calculateVolumeFromDistance default_app_settings 5
   \<and> app_calculateVolumeFromDistance default_app_settings 5 = 100
   \<and> app_calculateVolumeFromDistance default_app_settings 200 = 5"
  using volume_monotone
      [of "(initial_service True)\<lparr>volumeCurve := linear\<rparr>" 5 200 default_app_settings]
  by (simp add: initial_service_def default_app_settings_def app_calculateVolumeFromDistance_def)

section \<open>The curve definitions\<close>

text \<open>
  C4, as stated, fails on the UI's mapping: its exponential curve is \<open>exp (-3t)\<close>, not
  \<open>exp (-4t)\<close>, and it has no inverse-square curve (the name falls through to the linear
  curve, 0 at \<open>t = 1\<close>, where the inverse square gives 1/100). In neither mapping is the
  decay constant a setting.
\<close>

theorem curve_forms_counterexample:
  "app_volumeRatio ''exponential'' 1 \<noteq> spec_volumeRatio 4 (1 / 9) exponential 1
   \<and> app_volumeRatio ''inverse_square'' 1 = 0
   \<and> spec_volumeRatio 4 (1 / 9) inverse_square 1 = 1 / 100"
  by (simp add: app_volumeRatio_def spec_volumeRatio_def power2_eq_square)

text \<open>
  C4, amended. For every \<open>t\<close> in \<open>[0, 1]\<close>: in \<open>EnhancedAudioSynthesisService\<close> linear
  gives \<open>1 - t\<close>, exponential gives \<open>exp (-4t)\<close> with the constant 4 fixed in the code,
  logarithmic gives \<open>1 - log10 (1 + 9t)\<close>, and inverse-square gives \<open>1 / (\<epsilon> + t)\<^sup>2\<close>
  divided by its value at \<open>t = 0\<close>, with \<open>\<epsilon> = 1/9\<close>, which is \<open>1 / (1 + 9t)\<^sup>2\<close>. In
  \<open>ProfessionalApp\<close> linear and logarithmic are the same, exponential is \<open>exp (-3t)\<close>
  with the constant 3 fixed in the code, and any other curve name, \<open>inverse_square\<close>
  included, gives the linear curve.
\<close>

theorem curve_forms:
  "0 \<le> t \<and> t \<le> 1 \<longrightarrow>
     volumeRatio c t = spec_volumeRatio 4 (1 / 9) c t
     \<and> volumeRatio inverse_square t = 1 / (1 + 9 * t)\<^sup>2
     \<and> app_volumeRatio ''linear'' t = spec_volumeRatio k e linear t
     \<and> app_volumeRatio ''logarithmic'' t = spec_volumeRatio k e logarithmic t
     \<and> app_volumeRatio ''exponential'' t = spec_volumeRatio 3 e exponential t
     \<and> app_volumeRatio ''inverse_square'' t = 1 - t"
proof
  assume h: "0 \<le> t \<and> t \<le> 1"
  have "volumeRatio c t = spec_volumeRatio 4 (1 / 9) c t"
  proof (cases c)
    case inverse_square
    then show ?thesis
      using h by (simp add: inverse_square_closed_form spec_inverse_square_ninth)
  next
    case exponential
    then show ?thesis by (simp add: volumeRatio_def spec_volumeRatio_def)
  next
    case logarithmic
    then show ?thesis using h by (simp add: logarithmic_closed_form spec_volumeRatio_def)
  next
    case linear
    then show ?thesis by (simp add: volumeRatio_def spec_volumeRatio_def)
  qed
  moreover have "app_volumeRatio ''logarithmic'' t = spec_volumeRatio k e logarithmic t"
    by (simp add: app_volumeRatio_def spec_volumeRatio_def log_def mult.commute)
  ultimately show "volumeRatio c t = spec_volumeRatio 4 (1 / 9) c t
     \<and> volumeRatio inverse_square t = 1 / (1 + 9 * t)\<^sup>2
     \<and> app_volumeRatio ''linear'' t = spec_volumeRatio k e linear t
     \<and> app_volumeRatio ''logarithmic'' t = spec_volumeRatio k e logarithmic t
     \<and> app_volumeRatio ''exponential'' t = spec_volumeRatio 3 e exponential t
     \<and> app_volumeRatio ''inverse_square'' t = 1 - t"
    using h by (simp add: inverse_square_closed_form app_volumeRatio_def spec_volumeRatio_def)
qed

theorem curve_forms_witness:
  "volumeRatio inverse_square 1 = 1 / 100
   \<and> volumeRatio logarithmic 1 = spec_volumeRatio 4 (1 / 9) logarithmic 1
   \<and> app_volumeRatio ''exponential'' 1 = exp (- 3)"
  using curve_forms [of 1 inverse_square 4 "1 / 9"] curve_forms [of 1 logarithmic 4 "1 / 9"]
  by (simp add: spec_volumeRatio_def)


section \<open>Trilateration: the selected triangle\<close>

text \<open>
  In exact arithmetic every intersection point lies on both of its circles, so with a
  tolerance of 0 or more every candidate triangle passes its validation.
\<close>

lemma sq_div_sum: "(X / d)\<^sup>2 + (Y / d)\<^sup>2 = (X\<^sup>2 + Y\<^sup>2) / d\<^sup>2" for X Y d :: real
  by (simp add: power_divide add_divide_distrib)

lemma rotated_norm:
  fixes u h dx dy d :: real
  assumes "d \<noteq> 0" and "dx\<^sup>2 + dy\<^sup>2 = d\<^sup>2"
  shows "(u * dx / d + h * dy / d)\<^sup>2 + (u * dy / d - h * dx / d)\<^sup>2 = u\<^sup>2 + h\<^sup>2"
proof -
  have "(u * dx + h * dy)\<^sup>2 + (u * dy - h * dx)\<^sup>2 = (u\<^sup>2 + h\<^sup>2) * (dx\<^sup>2 + dy\<^sup>2)"
    by (simp add: power2_eq_square algebra_simps)
  then have num: "(u * dx + h * dy)\<^sup>2 + (u * dy - h * dx)\<^sup>2 = (u\<^sup>2 + h\<^sup>2) * d\<^sup>2"
    using assms(2) by simp
  have e1: "u * dx / d + h * dy / d = (u * dx + h * dy) / d"
    by (simp add: add_divide_distrib)
  have e2: "u * dy / d - h * dx / d = (u * dy - h * dx) / d"
    by (simp add: diff_divide_distrib)
  show ?thesis
    unfolding e1 e2 sq_div_sum num using assms(1) by simp
qed

lemma intersection_on_circles:
  assumes "p \<in> set (find_circle_intersections ci cj)"
  shows "distance_to p (fst ci) = snd ci \<and> distance_to p (fst cj) = snd cj"
proof -
  obtain xi yi ri where ci: "ci = ((xi, yi), ri)" by (cases ci) auto
  obtain xj yj rj where cj: "cj = ((xj, yj), rj)" by (cases cj) auto
  define dx where "dx = xj - xi"
  define dy where "dy = yj - yi"
  define d where "d = distance_to (xi, yi) (xj, yj)"
  define a where "a = (ri\<^sup>2 - rj\<^sup>2 + d\<^sup>2) / (2 * d)"
  define h where "h = sqrt (max 0 (ri\<^sup>2 - a\<^sup>2))"
  have fci: "find_circle_intersections ci cj =
      (if d > ri + rj \<or> d < \<bar>ri - rj\<bar> \<or> d = 0 then []
       else [(xi + a * dx / d + h * dy / d, yi + a * dy / d - h * dx / d),
             (xi + a * dx / d - h * dy / d, yi + a * dy / d + h * dx / d)])"
    unfolding find_circle_intersections_def Let_def ci cj h_def a_def d_def dx_def dy_def
    by simp
  have dsq: "dx\<^sup>2 + dy\<^sup>2 = d\<^sup>2"
    by (simp add: d_def distance_to_def dx_def dy_def power2_commute)
  have d0: "0 \<le> d" by (simp add: d_def distance_to_def)
  have nonempty: "\<not> (d > ri + rj \<or> d < \<bar>ri - rj\<bar> \<or> d = 0)"
    using assms unfolding fci by (auto split: if_splits)
  then have dpos: "0 < d" and up: "d \<le> ri + rj" and lo: "\<bar>ri - rj\<bar> \<le> d"
    using d0 by auto
  have ri0: "0 \<le> ri" and rj0: "0 \<le> rj" using up lo by linarith+
  have two_d: "2 * d * a = ri\<^sup>2 - rj\<^sup>2 + d\<^sup>2"
    using dpos by (simp add: a_def)
  have "(d - ri)\<^sup>2 \<le> rj\<^sup>2"
    using up lo rj0 by (intro abs_le_square_iff [THEN iffD1]) linarith
  then have "0 \<le> 2 * d * (ri - a)"
    using two_d by (simp add: power2_eq_square algebra_simps)
  then have a_le: "a \<le> ri" using dpos by (simp add: zero_le_mult_iff)
  have "rj\<^sup>2 \<le> (d + ri)\<^sup>2"
    using up lo ri0 rj0 dpos by (intro abs_le_square_iff [THEN iffD1]) linarith
  then have "0 \<le> 2 * d * (ri + a)"
    using two_d by (simp add: power2_eq_square algebra_simps)
  then have a_ge: "- ri \<le> a" using dpos by (simp add: zero_le_mult_iff)
  have "a\<^sup>2 \<le> ri\<^sup>2"
    using a_le a_ge by (intro abs_le_square_iff [THEN iffD1]) linarith
  then have hsq: "h\<^sup>2 = ri\<^sup>2 - a\<^sup>2"
    by (simp add: h_def)
  have near: "a\<^sup>2 + h\<^sup>2 = ri\<^sup>2" "a\<^sup>2 + (- h)\<^sup>2 = ri\<^sup>2" using hsq by simp_all
  have "(a - d)\<^sup>2 + h\<^sup>2 = ri\<^sup>2 + d\<^sup>2 - 2 * d * a"
    using hsq by (simp add: power2_eq_square algebra_simps)
  then have far: "(a - d)\<^sup>2 + h\<^sup>2 = rj\<^sup>2" "(a - d)\<^sup>2 + (- h)\<^sup>2 = rj\<^sup>2"
    using two_d by simp_all
  have dnz: "d \<noteq> 0" using dpos by simp
  from assms have p: "p = (xi + a * dx / d + h * dy / d, yi + a * dy / d - h * dx / d)
      \<or> p = (xi + a * dx / d - h * dy / d, yi + a * dy / d + h * dx / d)"
    unfolding fci using nonempty by (simp split: if_splits)
  from p show ?thesis
  proof
    assume p1: "p = (xi + a * dx / d + h * dy / d, yi + a * dy / d - h * dx / d)"
    have "(fst p - xi)\<^sup>2 + (snd p - yi)\<^sup>2 = a\<^sup>2 + h\<^sup>2"
      using rotated_norm [OF dnz dsq, of a h] by (simp add: p1)
    then have n1: "distance_to p (fst ci) = ri"
      using ri0 by (simp add: distance_to_def ci near)
    have "fst p - xj = (a - d) * dx / d + h * dy / d" "snd p - yj = (a - d) * dy / d - h * dx / d"
      using dnz by (simp_all add: p1 dx_def dy_def field_simps)
    then have "(fst p - xj)\<^sup>2 + (snd p - yj)\<^sup>2 = (a - d)\<^sup>2 + h\<^sup>2"
      using rotated_norm [OF dnz dsq, of "a - d" h] by simp
    then have n2: "distance_to p (fst cj) = rj"
      using rj0 by (simp add: distance_to_def cj far)
    show ?thesis using n1 n2 by (simp add: ci cj)
  next
    assume p2: "p = (xi + a * dx / d - h * dy / d, yi + a * dy / d + h * dx / d)"
    have "(fst p - xi)\<^sup>2 + (snd p - yi)\<^sup>2 = a\<^sup>2 + (- h)\<^sup>2"
      using rotated_norm [OF dnz dsq, of a "- h"] by (simp add: p2)
    then have n1: "distance_to p (fst ci) = ri"
      using ri0 by (simp add: distance_to_def ci near)
    have "fst p - xj = (a - d) * dx / d + (- h) * dy / d"
      "snd p - yj = (a - d) * dy / d - (- h) * dx / d"
      using dnz by (simp_all add: p2 dx_def dy_def field_simps)
    then have "(fst p - xj)\<^sup>2 + (snd p - yj)\<^sup>2 = (a - d)\<^sup>2 + (- h)\<^sup>2"
      using rotated_norm [OF dnz dsq, of "a - d" "- h"] by simp
    then have n2: "distance_to p (fst cj) = rj"
      using rj0 by (simp add: distance_to_def cj far)
    show ?thesis using n1 n2 by (simp add: ci cj)
  qed
qed

lemma candidates_all_validated:
  assumes "0 \<le> eps" and "c \<in> set (triangle_candidates eps sensors)"
  shows "snd c"
proof -
  obtain c1 c2 c3 where s: "sensors = (c1, c2, c3)" by (cases sensors) auto
  from assms(2) obtain pt12 pt13 pt23 where
    m: "pt12 \<in> set (find_circle_intersections c1 c2)"
       "pt13 \<in> set (find_circle_intersections c1 c3)"
       "pt23 \<in> set (find_circle_intersections c2 c3)"
    and c: "c = ((pt12, pt13, pt23), verify_triangle_on_circles eps c1 c2 c3 (pt12, pt13, pt23))"
    unfolding triangle_candidates_def s by auto
  have "on_circle eps pt12 c1" "on_circle eps pt12 c2" "on_circle eps pt13 c1"
    "on_circle eps pt13 c3" "on_circle eps pt23 c2" "on_circle eps pt23 c3"
    using intersection_on_circles [OF m(1)] intersection_on_circles [OF m(2)]
      intersection_on_circles [OF m(3)] assms(1)
    by (simp_all add: on_circle_def)
  then show ?thesis by (simp add: c verify_triangle_on_circles_def)
qed



text \<open>
  The sensors with the exact distances to (3, 4): the intersection points and the eight
  candidates.
\<close>

lemma sqrt_vals:
  "sqrt 36 = 6" "sqrt 64 = 8" "sqrt 100 = 10" "sqrt 16 = 4" "sqrt 9 = 3" "sqrt 25 = 5"
  "sqrt 676 = 26" "sqrt 900 = 30" "sqrt 784 = 28" "sqrt 400 = 20" "sqrt 225 = 15"
  "sqrt 625 = 25" "sqrt 289 = 17" "sqrt (41616 / 169) = 204 / 13"
  by (rule real_sqrt_unique; simp add: power2_eq_square)+









text \<open>
  Three circles without a common point: the first candidate has area 243, the second has
  the least area, 27, and no other candidate has it.
\<close>

lemma example_inter12:
  "find_circle_intersections ((0, 0), 25) ((- 10, 24), 17) = [(7, 24), (- (3713 / 169), 2016 / 169)]"
  by (simp add: find_circle_intersections_def distance_to_def Let_def sqrt_vals power2_eq_square)

lemma example_inter13:
  "find_circle_intersections ((0, 0), 25) ((18, 24), 25) = [(25, 0), (- 7, 24)]"
  by (simp add: find_circle_intersections_def distance_to_def Let_def sqrt_vals power2_eq_square)

lemma example_inter23:
  "find_circle_intersections ((- 10, 24), 17) ((18, 24), 25) = [(- 2, 9), (- 2, 39)]"
  by (simp add: find_circle_intersections_def distance_to_def Let_def sqrt_vals power2_eq_square)





text \<open>
  With a negative tolerance every candidate fails its validation, fewer than three valid
  candidates remain and the solver reports \<open>InsufficientGeometry\<close>.
\<close>

lemma example_rejected:
  "solve (example_config\<lparr>tolerance := - 1\<rparr>) example_sensors = Inl InsufficientGeometry"
proof -
  have "filter snd (triangle_candidates (- 1) example_sensors) = []"
    by (simp add: example_sensors_def triangle_candidates_def example_inter12 example_inter13
          example_inter23 verify_triangle_on_circles_def on_circle_def distance_to_def
          power2_eq_square sqrt_vals)
  then show ?thesis
    by (simp add: solve_def example_config_def example_sensors_def)
qed

end
